theory Spec2Isabelle
  imports Main "HOL-Library.Word"
begin

section \<open>JavaScript values used by the bot\<close>

text \<open>
  A JavaScript string is a sequence of UTF-16 code units; \<open>s.length\<close> counts them.
  \<open>ascii\<close> turns an ASCII literal of the source into such a string.
\<close>

type_synonym js_string = "16 word list"

definition ascii :: "string \<Rightarrow> js_string" where
  "ascii s = map of_char s"

text \<open>
  Error objects: \<open>new Error(msg)\<close> of the source, the \<open>TypeError\<close> of a property read on
  \<open>undefined\<close> or \<open>null\<close>, and the error objects with which the API client library
  rejects a request (an optional numeric \<open>code\<close>, the HTTP status of the response, and a
  \<open>message\<close>).
\<close>

datatype js_error =
    Error js_string
  | TypeError
  | ApiError "int option" js_string

text \<open>
  What a \<open>throw\<close> can carry: an error object, or a value that is not an object at all.
  Of the latter, \<open>null\<close> and \<open>undefined\<close> are the ones on which a property read in a
  \<open>catch\<close> block throws in its turn.
\<close>

datatype js_thrown =
    Thrown js_error
  | ThrownNull
  | ThrownUndefined

text \<open>
  The values a caller may pass as \<open>message\<close> or \<open>tweetId\<close>: the primitive values,
  arrays, and objects. The payload of a number is never inspected by the bot. An object
  is given by what reading its \<open>length\<close> property does: it yields a number, yields
  \<open>undefined\<close> (\<open>None\<close>, also when the property is absent), or is an accessor that
  throws, as in \<open>{ get length() { throw null } }\<close>. The string conversion of a value in
  a log line yields a string.
\<close>

datatype js_value =
    JUndefined
  | JNull
  | JBool bool
  | JNum int
  | JStr js_string
  | JArr "js_value list"
  | JObj "js_thrown + nat option"

text \<open>
  \<open>error.code\<close> of an error object: only the API client's errors carry one; otherwise it
  is \<open>undefined\<close>.
\<close>

fun code :: "js_error \<Rightarrow> int option" where
  "code (Error msg) = None"
| "code TypeError = None"
| "code (ApiError c msg) = c"

text \<open>Truthiness of a value that is a string, \<open>undefined\<close> or \<open>null\<close> (here \<open>None\<close>).\<close>

fun truthy :: "js_string option \<Rightarrow> bool" where
  "truthy None = False"
| "truthy (Some s) = (s \<noteq> [])"

text \<open>
  \<open>message.length\<close>: a \<open>TypeError\<close> on \<open>undefined\<close> and \<open>null\<close>, the number of code units
  of a string, the number of elements of an array, \<open>undefined\<close> (here \<open>None\<close>) on a boolean
  or a number, and on an object what its \<open>length\<close> property does.
\<close>

fun js_length :: "js_value \<Rightarrow> js_thrown + nat option" where
  "js_length JUndefined = Inl (Thrown TypeError)"
| "js_length JNull = Inl (Thrown TypeError)"
| "js_length (JBool b) = Inr None"
| "js_length (JNum n) = Inr None"
| "js_length (JStr s) = Inr (Some (length s))"
| "js_length (JArr xs) = Inr (Some (length xs))"
| "js_length (JObj r) = r"

text \<open>\<open>len > n\<close> for a length that may be \<open>undefined\<close>: \<open>undefined > n\<close> is \<open>false\<close>.\<close>

fun js_gt :: "nat option \<Rightarrow> nat \<Rightarrow> bool" where
  "js_gt None n = False"
| "js_gt (Some l) n = (l > n)"

section \<open>The provider, the network trace and the log\<close>

text \<open>
  \<open>tweet.data\<close> of a create-message response of the API client: its fields \<open>id\<close> and
  \<open>text\<close>.
\<close>

record tweet_data =
  data_id :: js_string
  data_text :: js_string

text \<open>
  The external API behind \<open>this.client.v2\<close>, with a state \<open>'s\<close> of its own. Each request
  either resolves (\<open>Inr\<close>) or rejects (\<open>Inl\<close>). \<open>v2_tweet message reply\<close> is
  \<open>tweet(message, options)\<close>, where \<open>reply = Some i\<close> stands for the options
  \<open>{ reply: { in_reply_to_tweet_id: i } }\<close> and \<open>None\<close> for \<open>{}\<close> or no options;
  \<open>v2_me\<close> resolves with \<open>me.data.username\<close>; the response of \<open>v2_deleteTweet\<close> is not read
  by the bot.
\<close>

record 's provider =
  v2_me :: "'s \<Rightarrow> (js_error + js_string) \<times> 's"
  v2_tweet :: "js_value \<Rightarrow> js_string option \<Rightarrow> 's \<Rightarrow> (js_error + tweet_data) \<times> 's"
  v2_deleteTweet :: "js_value \<Rightarrow> 's \<Rightarrow> (js_error + unit) \<times> 's"

text \<open>One entry per request sent to the provider, with its outcome.\<close>

datatype net_event =
    MeCall "js_error + js_string"
  | TweetCall js_value "js_string option" "js_error + tweet_data"
  | DeleteCall js_value "js_error + unit"

text \<open>One constructor per log line of the source, carrying the interpolated value.\<close>

datatype log_level = Info | Err

datatype log_entry =
    FailedToLoadCredentials js_error
  | AuthenticationSuccessful js_string
  | FailedToInitializeClient js_error
  | TweetPostedSuccessfully js_value
  | AccessLevelError js_error
  | ErrorPostingTweet js_error
  | ThreadTweetPosted js_value
  | ErrorCreatingThread js_error
  | TweetDeletedSuccessfully js_value
  | ErrorDeletingTweet js_error

record 's world =
  net :: 's
  calls :: "net_event list"
  logged :: "(log_level \<times> log_entry) list"

definition logger_info :: "log_entry \<Rightarrow> 's world \<Rightarrow> 's world" where
  "logger_info entry w = w\<lparr>logged := logged w @ [(Info, entry)]\<rparr>"

definition logger_error :: "log_entry \<Rightarrow> 's world \<Rightarrow> 's world" where
  "logger_error entry w = w\<lparr>logged := logged w @ [(Err, entry)]\<rparr>"

section \<open>The TwitterBot class\<close>

text \<open>The object built by \<open>new TwitterApi({appKey, appSecret, accessToken, accessSecret})\<close>.\<close>

datatype twitter_api =
  TwitterApi "js_string option" "js_string option" "js_string option" "js_string option"

text \<open>The fields of \<open>this\<close>; a field that was never assigned is \<open>undefined\<close> (\<open>None\<close>).\<close>

record bot =
  apiKey :: "js_string option"
  apiSecret :: "js_string option"
  accessToken :: "js_string option"
  accessTokenSecret :: "js_string option"
  bearerToken :: "js_string option"
  client :: "twitter_api option"

definition new_bot :: bot where
  "new_bot = \<lparr>apiKey = None, apiSecret = None, accessToken = None,
     accessTokenSecret = None, bearerToken = None, client = None\<rparr>"

text \<open>
  \<open>dotenv.config({ path, override: true })\<close>: when the file can be read, its entries are
  written over \<open>process.env\<close>; when it cannot (\<open>None\<close>), \<open>process.env\<close> is left as it is.
  Nothing is thrown in either case.
\<close>

fun dotenv_config ::
  "(string \<rightharpoonup> js_string) option \<Rightarrow> (string \<rightharpoonup> js_string) \<Rightarrow> (string \<rightharpoonup> js_string)" where
  "dotenv_config None process_env = process_env"
| "dotenv_config (Some parsed) process_env = process_env ++ parsed"

definition loadCredentials ::
  "(string \<rightharpoonup> js_string) option \<Rightarrow> (string \<rightharpoonup> js_string) \<Rightarrow> bot \<Rightarrow> 's world
    \<Rightarrow> (js_error + bot) \<times> 's world" where
  "loadCredentials envFile process_env this w =
     (let env = dotenv_config envFile process_env;
          this = this\<lparr>apiKey := env ''TWITTER_API_KEY''\<rparr>;
          this = this\<lparr>apiSecret := env ''TWITTER_API_SECRET''\<rparr>;
          this = this\<lparr>accessToken := env ''TWITTER_ACCESS_TOKEN''\<rparr>;
          this = this\<lparr>accessTokenSecret := env ''TWITTER_ACCESS_TOKEN_SECRET''\<rparr>;
          this = this\<lparr>bearerToken := env ''TWITTER_BEARER_TOKEN''\<rparr>
      in if \<not> truthy (apiKey this) \<or> \<not> truthy (apiSecret this) \<or> \<not> truthy (accessToken this)
            \<or> \<not> truthy (accessTokenSecret this) \<or> \<not> truthy (bearerToken this)
         then let error = Error (ascii ''Missing required credentials in .env file'')
              in (Inl error, logger_error (FailedToLoadCredentials error) w)
         else (Inr this, w))"

text \<open>
  \<open>async _initializeClient()\<close> up to its \<open>await\<close>: the client is assigned and \<open>me()\<close> is
  called. The function then suspends, and its caller goes on with a pending promise.
\<close>

definition initializeClient :: "bot \<Rightarrow> bot" where
  "initializeClient this =
     this\<lparr>client :=
       Some (TwitterApi (apiKey this) (apiSecret this) (accessToken this) (accessTokenSecret this))\<rparr>"

text \<open>
  The rest of \<open>_initializeClient\<close>, which runs when \<open>me()\<close> settles: the answer of the
  provider is recorded and one line is logged. The first component is how the promise of
  \<open>_initializeClient\<close> settles then.
\<close>

definition initializeClient_settled ::
  "'s provider \<Rightarrow> 's world \<Rightarrow> (js_error + unit) \<times> 's world" where
  "initializeClient_settled P w =
     (case v2_me P (net w) of (me, n) \<Rightarrow>
        (let w = w\<lparr>net := n, calls := calls w @ [MeCall me]\<rparr>
         in case me of
              Inr username \<Rightarrow> (Inr (), logger_info (AuthenticationSuccessful username) w)
            | Inl error \<Rightarrow> (Inl error, logger_error (FailedToInitializeClient error) w)))"

text \<open>
  \<open>new TwitterBot(envPath)\<close>: \<open>Inl\<close> is an exception thrown out of the constructor, \<open>Inr\<close>
  the constructed object. \<open>_initializeClient()\<close> is called without \<open>await\<close>: the
  constructor returns as soon as that call suspends and keeps no reference to its
  promise, so \<open>initializeClient_settled\<close> runs after the caller has the object, and its
  outcome reaches nobody.
\<close>

definition constructor ::
  "(string \<rightharpoonup> js_string) option \<Rightarrow> (string \<rightharpoonup> js_string) \<Rightarrow> 's world
    \<Rightarrow> (js_error + bot) \<times> 's world" where
  "constructor envFile process_env w =
     (case loadCredentials envFile process_env new_bot w of
        (Inl error, w) \<Rightarrow> (Inl error, w)
      | (Inr this, w) \<Rightarrow> (Inr (initializeClient this), w))"

text \<open>
  \<open>await this.client.v2.tweet(message, options)\<close>: reading \<open>v2\<close> of an unassigned client
  throws a \<open>TypeError\<close> and sends nothing; otherwise the request is sent and recorded.
\<close>

definition client_tweet ::
  "'s provider \<Rightarrow> bot \<Rightarrow> js_value \<Rightarrow> js_string option \<Rightarrow> 's world
    \<Rightarrow> (js_error + tweet_data) \<times> 's world" where
  "client_tweet P this message reply w =
     (case client this of
        None \<Rightarrow> (Inl TypeError, w)
      | Some c \<Rightarrow>
          (case v2_tweet P message reply (net w) of (tweet, n) \<Rightarrow>
             (tweet, w\<lparr>net := n, calls := calls w @ [TweetCall message reply tweet]\<rparr>)))"

definition client_deleteTweet ::
  "'s provider \<Rightarrow> bot \<Rightarrow> js_value \<Rightarrow> 's world \<Rightarrow> (js_error + unit) \<times> 's world" where
  "client_deleteTweet P this tweetId w =
     (case client this of
        None \<Rightarrow> (Inl TypeError, w)
      | Some c \<Rightarrow>
          (case v2_deleteTweet P tweetId (net w) of (r, n) \<Rightarrow>
             (r, w\<lparr>net := n, calls := calls w @ [DeleteCall tweetId r]\<rparr>)))"

text \<open>The \<open>try\<close> block of \<open>sendTweet\<close>: \<open>Inl\<close> is the value it throws.\<close>

definition sendTweet_try ::
  "'s provider \<Rightarrow> bot \<Rightarrow> js_value \<Rightarrow> 's world \<Rightarrow> (js_thrown + tweet_data) \<times> 's world" where
  "sendTweet_try P this message w =
     (case js_length message of
        Inl thrown \<Rightarrow> (Inl thrown, w)
      | Inr len \<Rightarrow>
          if js_gt len 280
          then (Inl (Thrown (Error (ascii ''Tweet exceeds 280 characters''))), w)
          else (case client_tweet P this message None w of
                  (Inl error, w) \<Rightarrow> (Inl (Thrown error), w)
                | (Inr tweet, w) \<Rightarrow> (Inr tweet, logger_info (TweetPostedSuccessfully message) w)))"

text \<open>
  \<open>async sendTweet(message)\<close>: \<open>Inl\<close> is a rejected promise, \<open>Inr None\<close> is \<open>null\<close>. In the
  \<open>catch\<close> block, \<open>error.code\<close> is read first: on an error object the line is logged and
  \<open>null\<close> returned; on a thrown \<open>null\<close> or \<open>undefined\<close> the read itself throws a
  \<open>TypeError\<close>, which leaves the function.
\<close>

definition sendTweet ::
  "'s provider \<Rightarrow> bot \<Rightarrow> js_value \<Rightarrow> 's world \<Rightarrow> (js_thrown + tweet_data option) \<times> 's world" where
  "sendTweet P this message w =
     (case sendTweet_try P this message w of
        (Inr tweet, w) \<Rightarrow> (Inr (Some tweet), w)
      | (Inl (Thrown error), w) \<Rightarrow>
          (Inr None,
           if code error = Some 403 then logger_error (AccessLevelError error) w
           else logger_error (ErrorPostingTweet error) w)
      | (Inl ThrownNull, w) \<Rightarrow> (Inl (Thrown TypeError), w)
      | (Inl ThrownUndefined, w) \<Rightarrow> (Inl (Thrown TypeError), w))"

text \<open>
  \<open>tweetOptions\<close> of an iteration: the reply options when \<open>previousTweetId\<close> is truthy,
  \<open>{}\<close> (\<open>None\<close>) otherwise.
\<close>

definition tweetOptions :: "js_string option \<Rightarrow> js_string option" where
  "tweetOptions previousTweetId = (if truthy previousTweetId then previousTweetId else None)"

text \<open>
  The \<open>for\<close> loop of \<open>createThread\<close> over the remaining messages, with the array \<open>tweets\<close>
  and \<open>previousTweetId\<close> (\<open>None\<close> is \<open>null\<close>) as they stand. The array is returned in both
  outcomes, since the \<open>catch\<close> block reads it as the loop left it.
\<close>

fun createThread_loop ::
  "'s provider \<Rightarrow> bot \<Rightarrow> js_value list \<Rightarrow> tweet_data list \<Rightarrow> js_string option \<Rightarrow> 's world
    \<Rightarrow> (js_error + unit) \<times> tweet_data list \<times> 's world" where
  "createThread_loop P this [] tweets previousTweetId w = (Inr (), tweets, w)"
| "createThread_loop P this (message # rest) tweets previousTweetId w =
     (case client_tweet P this message (tweetOptions previousTweetId) w of
        (Inl error, w) \<Rightarrow> (Inl error, tweets, w)
      | (Inr tweet, w) \<Rightarrow>
          createThread_loop P this rest (tweets @ [tweet]) (Some (data_id tweet))
            (logger_info (ThreadTweetPosted message) w))"

definition createThread ::
  "'s provider \<Rightarrow> bot \<Rightarrow> js_value list \<Rightarrow> 's world \<Rightarrow> (js_error + tweet_data list) \<times> 's world" where
  "createThread P this messages w =
     (case createThread_loop P this messages [] None w of
        (Inr u, tweets, w) \<Rightarrow> (Inr tweets, w)
      | (Inl error, tweets, w) \<Rightarrow> (Inr tweets, logger_error (ErrorCreatingThread error) w))"

definition deleteTweet ::
  "'s provider \<Rightarrow> bot \<Rightarrow> js_value \<Rightarrow> 's world \<Rightarrow> (js_error + bool) \<times> 's world" where
  "deleteTweet P this tweetId w =
     (case client_deleteTweet P this tweetId w of
        (Inr u, w) \<Rightarrow> (Inr True, logger_info (TweetDeletedSuccessfully tweetId) w)
      | (Inl error, w) \<Rightarrow> (Inr False, logger_error (ErrorDeletingTweet error) w))"

section \<open>Concrete providers and worlds\<close>

text \<open>
  A provider that accepts every request. Its state counts the messages created so far;
  the n-th message gets the identifier of n digits \<open>1\<close>, and the response repeats the
  text of a string message.
\<close>

definition echo_provider :: "nat provider" where
  "echo_provider =
     \<lparr>v2_me = (\<lambda>n. (Inr (ascii ''bot''), n)),
      v2_tweet = (\<lambda>message reply n.
         (Inr \<lparr>data_id = replicate (Suc n) 0x31,
               data_text = (case message of JStr s \<Rightarrow> s | _ \<Rightarrow> [])\<rparr>, Suc n)),
      v2_deleteTweet = (\<lambda>tweetId n. (Inr (), n))\<rparr>"

text \<open>
  A provider that rejects the identity check and every deletion with the status \<open>c\<close>, and
  rejects the create-message request it receives in state \<open>k\<close>; the other create-message
  requests are answered as by \<open>echo_provider\<close>.
\<close>

definition rejecting_provider :: "nat \<Rightarrow> int option \<Rightarrow> nat provider" where
  "rejecting_provider k c =
     \<lparr>v2_me = (\<lambda>n. (Inl (ApiError c (ascii ''Unauthorized'')), n)),
      v2_tweet = (\<lambda>message reply n.
         if n = k then (Inl (ApiError c (ascii ''Rejected'')), Suc n)
         else v2_tweet echo_provider message reply n),
      v2_deleteTweet = (\<lambda>tweetId n. (Inl (ApiError c (ascii ''Rejected'')), n))\<rparr>"

text \<open>
  A provider that stores the text with \<open>&\<close> written as \<open>&amp;\<close> and answers with the
  stored text.
\<close>

definition escaping_provider :: "nat provider" where
  "escaping_provider =
     \<lparr>v2_me = (\<lambda>n. (Inr (ascii ''bot''), n)),
      v2_tweet = (\<lambda>message reply n.
         (Inr \<lparr>data_id = replicate (Suc n) 0x31,
               data_text = (case message of
                              JStr s \<Rightarrow> concat (map (\<lambda>u. if u = 0x26 then ascii ''&amp;'' else [u]) s)
                            | _ \<Rightarrow> [])\<rparr>, Suc n)),
      v2_deleteTweet = (\<lambda>tweetId n. (Inr (), n))\<rparr>"

definition initial_world :: "nat world" where
  "initial_world = \<lparr>net = 0, calls = [], logged = []\<rparr>"

text \<open>A bot whose client has been assigned, as the constructor leaves it.\<close>

definition ready_bot :: bot where
  "ready_bot =
     \<lparr>apiKey = Some (ascii ''k''), apiSecret = Some (ascii ''s''), accessToken = Some (ascii ''t''),
      accessTokenSecret = Some (ascii ''ts''), bearerToken = Some (ascii ''b''),
      client = Some (TwitterApi (Some (ascii ''k'')) (Some (ascii ''s'')) (Some (ascii ''t''))
                       (Some (ascii ''ts'')))\<rparr>"

text \<open>An environment with the five credentials.\<close>

definition full_env :: "string \<rightharpoonup> js_string" where
  "full_env =
     [''TWITTER_API_KEY'' \<mapsto> ascii ''k'', ''TWITTER_API_SECRET'' \<mapsto> ascii ''s'',
      ''TWITTER_ACCESS_TOKEN'' \<mapsto> ascii ''t'', ''TWITTER_ACCESS_TOKEN_SECRET'' \<mapsto> ascii ''ts'',
      ''TWITTER_BEARER_TOKEN'' \<mapsto> ascii ''b'']"

section \<open>The requests of a thread\<close>

text \<open>
  The parent reference of request \<open>i\<close> of a thread whose earlier posts are \<open>posts\<close>:
  none for request 0, the identifier of post \<open>i - 1\<close> for a later request. An identifier
  that is the empty string is falsy in the test of \<open>previousTweetId\<close>, so the request
  after such a post carries no parent either.
\<close>

definition request_parent :: "tweet_data list \<Rightarrow> nat \<Rightarrow> js_string option" where
  "request_parent posts i =
     (if i = 0 then None
      else if data_id (posts ! (i - 1)) = [] then None
      else Some (data_id (posts ! (i - 1))))"

text \<open>
  The requests a run of the loop sends, written from its outcome: the parent reference of
  each request (the options built from \<open>previousTweetId\<close>, then from the identifier of
  each post), the provider's answers (the posts, then the error when the loop was left by
  one), and the trace entries made of the messages, the parents and the answers.
\<close>

definition thread_parents :: "js_string option \<Rightarrow> tweet_data list \<Rightarrow> js_string option list" where
  "thread_parents previousTweetId posts =
     tweetOptions previousTweetId # map (\<lambda>d. tweetOptions (Some (data_id d))) posts"

definition thread_responses :: "tweet_data list \<Rightarrow> js_error + unit \<Rightarrow> (js_error + tweet_data) list" where
  "thread_responses posts r = map Inr posts @ (case r of Inl e \<Rightarrow> [Inl e] | Inr u \<Rightarrow> [])"

definition thread_events ::
  "js_value list \<Rightarrow> js_string option \<Rightarrow> tweet_data list \<Rightarrow> js_error + unit \<Rightarrow> net_event list" where
  "thread_events ms previousTweetId posts r =
     map (\<lambda>(m, p, resp). TweetCall m p resp)
       (zip ms (zip (thread_parents previousTweetId posts) (thread_responses posts r)))"

section \<open>Lemmas on the thread loop\<close>

lemma createThread_loop_no_client:
  "client this = None \<Longrightarrow>
   createThread_loop P this ms tweets prev w =
     (case ms of [] \<Rightarrow> (Inr (), tweets, w) | m # rest \<Rightarrow> (Inl TypeError, tweets, w))"
  by (cases ms) (simp_all add: client_tweet_def)

text \<open>
  Every run of the loop, with the states \<open>ss\<close> the provider goes through: each answer in
  the trace is the provider's answer to that request in the state reached.
\<close>

lemma createThread_loop_trace:
  assumes "client this = Some c"
    and "createThread_loop P this ms tweets prev w = (r, tweets', w')"
  shows "\<exists>posts ss. tweets' = tweets @ posts \<and>
           calls w' = calls w @ thread_events ms prev posts r \<and>
           length (thread_responses posts r) \<le> length ms \<and>
           (case r of Inr u \<Rightarrow> length posts = length ms | Inl e \<Rightarrow> True) \<and>
           length ss = Suc (length (thread_responses posts r)) \<and>
           ss ! 0 = net w \<and> ss ! length (thread_responses posts r) = net w' \<and>
           (\<forall>i < length (thread_responses posts r).
              v2_tweet P (ms ! i) (thread_parents prev posts ! i) (ss ! i) =
                (thread_responses posts r ! i, ss ! Suc i))"
  using assms
proof (induction ms arbitrary: tweets prev w)
  case Nil
  then have "r = Inr ()" "tweets' = tweets" "w' = w" by simp_all
  then have "tweets' = tweets @ [] \<and>
           calls w' = calls w @ thread_events [] prev [] r \<and>
           length (thread_responses [] r) \<le> length ([] :: js_value list) \<and>
           (case r of Inr u \<Rightarrow> length ([] :: tweet_data list) = length ([] :: js_value list)
            | Inl e \<Rightarrow> True) \<and>
           length [net w] = Suc (length (thread_responses [] r)) \<and>
           [net w] ! 0 = net w \<and> [net w] ! length (thread_responses [] r) = net w' \<and>
           (\<forall>i < length (thread_responses [] r).
              v2_tweet P ([] ! i) (thread_parents prev [] ! i) ([net w] ! i) =
                (thread_responses [] r ! i, [net w] ! Suc i))"
    by (simp add: thread_events_def thread_responses_def)
  then show ?case by blast
next
  case (Cons m rest)
  obtain resp n where call: "v2_tweet P m (tweetOptions prev) (net w) = (resp, n)"
    by (cases "v2_tweet P m (tweetOptions prev) (net w)")
  let ?w1 = "w\<lparr>net := n, calls := calls w @ [TweetCall m (tweetOptions prev) resp]\<rparr>"
  show ?case
  proof (cases resp)
    case (Inl e)
    with Cons.prems call have out: "r = Inl e" "tweets' = tweets" "w' = ?w1"
      by (simp_all add: client_tweet_def)
    have "tweets' = tweets @ [] \<and>
           calls w' = calls w @ thread_events (m # rest) prev [] r \<and>
           length (thread_responses [] r) \<le> length (m # rest) \<and>
           (case r of Inr u \<Rightarrow> length ([] :: tweet_data list) = length (m # rest)
            | Inl e \<Rightarrow> True) \<and>
           length [net w, n] = Suc (length (thread_responses [] r)) \<and>
           [net w, n] ! 0 = net w \<and> [net w, n] ! length (thread_responses [] r) = net w' \<and>
           (\<forall>i < length (thread_responses [] r).
              v2_tweet P ((m # rest) ! i) (thread_parents prev [] ! i) ([net w, n] ! i) =
                (thread_responses [] r ! i, [net w, n] ! Suc i))"
      using out Inl call
      by (simp add: thread_events_def thread_responses_def thread_parents_def)
    then show ?thesis by blast
  next
    case (Inr d)
    with Cons.prems call have run:
      "createThread_loop P this rest (tweets @ [d]) (Some (data_id d))
         (logger_info (ThreadTweetPosted m) ?w1) = (r, tweets', w')"
      by (simp add: client_tweet_def)
    let ?n = "\<lambda>posts. length (thread_responses posts r)"
    from Cons.IH [OF Cons.prems(1) run] obtain posts ss where
      p: "tweets' = (tweets @ [d]) @ posts"
         "calls w' = calls (logger_info (ThreadTweetPosted m) ?w1) @
            thread_events rest (Some (data_id d)) posts r"
         "?n posts \<le> length rest"
         "(case r of Inr u \<Rightarrow> length posts = length rest | Inl e \<Rightarrow> True)"
         "length ss = Suc (?n posts)"
         "ss ! 0 = net (logger_info (ThreadTweetPosted m) ?w1)"
         "ss ! ?n posts = net w'"
         "\<forall>i < ?n posts.
            v2_tweet P (rest ! i) (thread_parents (Some (data_id d)) posts ! i) (ss ! i) =
              (thread_responses posts r ! i, ss ! Suc i)"
      by blast
    have resp_cons: "thread_responses (d # posts) r = Inr d # thread_responses posts r"
      by (simp add: thread_responses_def)
    have par_cons: "thread_parents prev (d # posts) =
        tweetOptions prev # thread_parents (Some (data_id d)) posts"
      by (simp add: thread_parents_def)
    have ev: "thread_events (m # rest) prev (d # posts) r =
              TweetCall m (tweetOptions prev) (Inr d) #
              thread_events rest (Some (data_id d)) posts r"
      by (simp add: thread_events_def par_cons resp_cons)
    have s0: "ss ! 0 = n" using p(6) by (simp add: logger_info_def)
    have a1: "tweets' = tweets @ (d # posts)" using p(1) by simp
    have a2: "calls w' = calls w @ thread_events (m # rest) prev (d # posts) r"
      using p(2) Inr by (simp add: ev logger_info_def)
    have a3: "?n (d # posts) \<le> length (m # rest)"
      using p(3) by (simp add: resp_cons)
    have a4: "(case r of Inr u \<Rightarrow> length (d # posts) = length (m # rest) | Inl e \<Rightarrow> True)"
      using p(4) by (simp split: sum.splits)
    have a5: "length (net w # ss) = Suc (?n (d # posts))"
      using p(5) by (simp add: resp_cons)
    have a6: "(net w # ss) ! 0 = net w" by simp
    have a7: "(net w # ss) ! ?n (d # posts) = net w'"
      using p(7) by (simp add: resp_cons)
    have a8: "v2_tweet P ((m # rest) ! i) (thread_parents prev (d # posts) ! i) ((net w # ss) ! i) =
                (thread_responses (d # posts) r ! i, (net w # ss) ! Suc i)"
      if "i < ?n (d # posts)" for i
    proof (cases i)
      case 0
      then show ?thesis using call Inr s0 by (simp add: par_cons resp_cons)
    next
      case (Suc j)
      with that have "j < ?n posts" by (simp add: resp_cons)
      with p(8) have "v2_tweet P (rest ! j) (thread_parents (Some (data_id d)) posts ! j) (ss ! j) =
              (thread_responses posts r ! j, ss ! Suc j)" by blast
      with Suc show ?thesis by (simp add: par_cons resp_cons)
    qed
    from a1 a2 a3 a4 a5 a6 a7 a8 show ?thesis by blast
  qed
qed

lemma thread_events_length:
  "length (thread_responses posts r) \<le> length ms \<Longrightarrow>
   length (thread_events ms prev posts r) = length (thread_responses posts r)"
  by (simp add: thread_events_def thread_parents_def thread_responses_def split: sum.splits)

lemma thread_events_nth:
  "i < length (thread_events ms prev posts r) \<Longrightarrow>
   thread_events ms prev posts r ! i =
     TweetCall (ms ! i) (thread_parents prev posts ! i) (thread_responses posts r ! i)"
  by (simp add: thread_events_def)

lemma request_parent_tweetOptions:
  "request_parent posts i = tweetOptions (if i = 0 then None else Some (data_id (posts ! (i - 1))))"
  by (simp add: request_parent_def tweetOptions_def)

lemma thread_parents_nth:
  "i \<le> length posts \<Longrightarrow> thread_parents None posts ! i = request_parent posts i"
  by (cases i) (simp_all add: thread_parents_def request_parent_tweetOptions)

lemma thread_responses_nth:
  "i < length (thread_responses posts r) \<Longrightarrow>
   (if i < length posts then thread_responses posts r ! i = Inr (posts ! i)
    else \<exists>e. r = Inl e \<and> thread_responses posts r ! i = Inl e)"
  by (auto simp: thread_responses_def nth_append split: sum.splits)

lemma thread_responses_length:
  "length (thread_responses posts r) = (case r of Inl e \<Rightarrow> Suc (length posts) | Inr u \<Rightarrow> length posts)"
  by (simp add: thread_responses_def split: sum.splits)

lemma createThread_trace:
  assumes cl: "client this = Some c"
    and run: "createThread P this messages w = (res, w')"
  shows "\<exists>posts evs ss. res = Inr posts \<and> calls w' = calls w @ evs \<and>
           length ss = Suc (length evs) \<and> ss ! 0 = net w \<and> ss ! length evs = net w' \<and>
           length posts \<le> length evs \<and> length evs \<le> Suc (length posts) \<and>
           length evs \<le> length messages \<and>
           (length evs = length posts \<longrightarrow> length posts = length messages) \<and>
           (\<forall>i < length evs. \<exists>resp.
              evs ! i = TweetCall (messages ! i) (request_parent posts i) resp \<and>
              v2_tweet P (messages ! i) (request_parent posts i) (ss ! i) = (resp, ss ! Suc i) \<and>
              (if i < length posts then resp = Inr (posts ! i) else \<exists>e. resp = Inl e))"
proof -
  obtain r tweets w1 where loop: "createThread_loop P this messages [] None w = (r, tweets, w1)"
    by (cases "createThread_loop P this messages [] None w") auto
  from createThread_loop_trace [OF cl loop] obtain posts ss where
    p: "tweets = posts" "calls w1 = calls w @ thread_events messages None posts r"
       "length (thread_responses posts r) \<le> length messages"
       "(case r of Inr u \<Rightarrow> length posts = length messages | Inl e \<Rightarrow> True)"
       "length ss = Suc (length (thread_responses posts r))"
       "ss ! 0 = net w" "ss ! length (thread_responses posts r) = net w1"
       "\<forall>i < length (thread_responses posts r).
          v2_tweet P (messages ! i) (thread_parents None posts ! i) (ss ! i) =
            (thread_responses posts r ! i, ss ! Suc i)"
    by auto
  let ?evs = "thread_events messages None posts r"
  have len: "length ?evs = length (thread_responses posts r)"
    using p(3) by (rule thread_events_length)
  have res: "res = Inr posts" and calls: "calls w' = calls w @ ?evs" and net: "net w' = net w1"
    using run loop p(1,2) by (auto simp: createThread_def logger_error_def split: sum.splits)
  have c1: "length ss = Suc (length ?evs)" using p(5) len by simp
  have c2: "ss ! length ?evs = net w'" using p(7) len net by simp
  have l1: "length posts \<le> length ?evs" and l2: "length ?evs \<le> Suc (length posts)"
    using len by (simp_all add: thread_responses_length split: sum.splits)
  have l3: "length ?evs \<le> length messages" using len p(3) by simp
  have full: "length ?evs = length posts \<longrightarrow> length posts = length messages"
    using len p(4) by (simp add: thread_responses_length split: sum.splits)
  have nth: "\<exists>resp. ?evs ! i = TweetCall (messages ! i) (request_parent posts i) resp \<and>
               v2_tweet P (messages ! i) (request_parent posts i) (ss ! i) = (resp, ss ! Suc i) \<and>
               (if i < length posts then resp = Inr (posts ! i) else \<exists>e. resp = Inl e)"
    if i: "i < length ?evs" for i
  proof -
    have "i \<le> length posts" using i l2 by simp
    then have par: "thread_parents None posts ! i = request_parent posts i"
      by (rule thread_parents_nth)
    have ir: "i < length (thread_responses posts r)" using i len by simp
    with p(8) have "v2_tweet P (messages ! i) (thread_parents None posts ! i) (ss ! i) =
         (thread_responses posts r ! i, ss ! Suc i)"
      by blast
    then have anchor:
      "v2_tweet P (messages ! i) (request_parent posts i) (ss ! i) =
         (thread_responses posts r ! i, ss ! Suc i)"
      by (simp only: par)
    from thread_responses_nth [OF ir] thread_events_nth [OF i] par anchor
    show ?thesis by (auto split: if_splits)
  qed
  from res calls c1 p(6) c2 l1 l2 l3 full nth show ?thesis by blast
qed

text \<open>
  The run in which the provider accepts the first \<open>k\<close> requests and rejects the next,
  from any iteration of the loop.
\<close>

lemma createThread_loop_rejected:
  assumes cl: "client this = Some c"
  shows "k < length ms \<Longrightarrow> length posts = k \<Longrightarrow> length ss = Suc k \<Longrightarrow> ss ! 0 = net w \<Longrightarrow>
    \<forall>i<k. v2_tweet P (ms ! i)
            (tweetOptions (if i = 0 then prev else Some (data_id (posts ! (i - 1))))) (ss ! i) =
          (Inr (posts ! i), ss ! Suc i) \<Longrightarrow>
    v2_tweet P (ms ! k)
       (tweetOptions (if k = 0 then prev else Some (data_id (posts ! (k - 1))))) (ss ! k) =
     (Inl e, s') \<Longrightarrow>
    createThread_loop P this ms tweets prev w =
      (Inl e, tweets @ posts,
       w\<lparr>net := s',
         calls := calls w @
           map (\<lambda>i. TweetCall (ms ! i)
                  (tweetOptions (if i = 0 then prev else Some (data_id (posts ! (i - 1)))))
                  (Inr (posts ! i))) [0..<k] @
           [TweetCall (ms ! k)
              (tweetOptions (if k = 0 then prev else Some (data_id (posts ! (k - 1))))) (Inl e)],
         logged := logged w @ map (\<lambda>i. (Info, ThreadTweetPosted (ms ! i))) [0..<k]\<rparr>)"
proof (induction k arbitrary: ms posts ss prev w tweets)
  case 0
  then obtain m rest where ms: "ms = m # rest" by (cases ms) auto
  from 0 have "posts = []" by simp
  with 0 ms cl show ?case by (simp add: client_tweet_def)
next
  case (Suc k)
  from Suc.prems(1) obtain m rest where ms: "ms = m # rest" by (cases ms) auto
  from Suc.prems(2) obtain d posts' where posts: "posts = d # posts'" by (cases posts) auto
  from Suc.prems(3) obtain s0 ss' where ss: "ss = s0 # ss'" by (cases ss) auto
  have s0: "s0 = net w" using Suc.prems(4) ss by simp
  have first: "v2_tweet P m (tweetOptions prev) (net w) = (Inr d, ss' ! 0)"
    using Suc.prems(5) ms posts ss s0 by auto
  let ?w1 = "logger_info (ThreadTweetPosted m)
               (w\<lparr>net := ss' ! 0, calls := calls w @ [TweetCall m (tweetOptions prev) (Inr d)]\<rparr>)"
  have step: "createThread_loop P this ms tweets prev w =
              createThread_loop P this rest (tweets @ [d]) (Some (data_id d)) ?w1"
    using first cl ms by (simp add: client_tweet_def)
  have h1: "k < length rest" using Suc.prems(1) ms by simp
  have h2: "length posts' = k" using Suc.prems(2) posts by simp
  have h3: "length ss' = Suc k" using Suc.prems(3) ss by simp
  have h4: "ss' ! 0 = net ?w1" by (simp add: logger_info_def)
  have shift: "(if Suc i = 0 then prev else Some (data_id (posts ! (Suc i - 1)))) =
               (if i = 0 then Some (data_id d) else Some (data_id (posts' ! (i - 1))))" for i
    using posts by (cases i) simp_all
  have h5: "\<forall>i<k. v2_tweet P (rest ! i)
              (tweetOptions (if i = 0 then Some (data_id d) else Some (data_id (posts' ! (i - 1)))))
              (ss' ! i) = (Inr (posts' ! i), ss' ! Suc i)"
  proof (intro allI impI)
    fix i assume "i < k"
    then have "Suc i < Suc k" by simp
    with Suc.prems(5) have
      "v2_tweet P (ms ! Suc i)
         (tweetOptions (if Suc i = 0 then prev else Some (data_id (posts ! (Suc i - 1)))))
         (ss ! Suc i) = (Inr (posts ! Suc i), ss ! Suc (Suc i))" by blast
    then show "v2_tweet P (rest ! i)
              (tweetOptions (if i = 0 then Some (data_id d) else Some (data_id (posts' ! (i - 1)))))
              (ss' ! i) = (Inr (posts' ! i), ss' ! Suc i)"
      unfolding shift using ms posts ss by simp
  qed
  have h6: "v2_tweet P (rest ! k)
       (tweetOptions (if k = 0 then Some (data_id d) else Some (data_id (posts' ! (k - 1)))))
       (ss' ! k) = (Inl e, s')"
    using Suc.prems(6) unfolding shift using ms ss by simp
  note ih = Suc.IH [OF h1 h2 h3 h4 h5 h6, of "tweets @ [d]"]
  have m1: "map (\<lambda>i. TweetCall (ms ! i)
                  (tweetOptions (if i = 0 then prev else Some (data_id (posts ! (i - 1)))))
                  (Inr (posts ! i))) [0..<Suc k] =
            TweetCall m (tweetOptions prev) (Inr d) #
            map (\<lambda>i. TweetCall (rest ! i)
                  (tweetOptions (if i = 0 then Some (data_id d) else Some (data_id (posts' ! (i - 1)))))
                  (Inr (posts' ! i))) [0..<k]"
    unfolding map_upt_Suc using ms posts shift by simp
  have m2: "map (\<lambda>i. (Info, ThreadTweetPosted (ms ! i))) [0..<Suc k] =
            (Info, ThreadTweetPosted m) # map (\<lambda>i. (Info, ThreadTweetPosted (rest ! i))) [0..<k]"
    unfolding map_upt_Suc using ms by simp
  have last: "TweetCall (ms ! Suc k)
              (tweetOptions (if Suc k = 0 then prev else Some (data_id (posts ! (Suc k - 1)))))
              (Inl e) =
             TweetCall (rest ! k)
              (tweetOptions (if k = 0 then Some (data_id d) else Some (data_id (posts' ! (k - 1)))))
              (Inl e)"
    unfolding shift using ms by simp
  show ?case
    unfolding step ih m1 m2 last using posts by (simp add: logger_info_def)
qed

lemma createThread_loop_length:
  "createThread_loop P this ms tweets prev w = (r, tweets', w') \<Longrightarrow>
   length tweets' \<le> length tweets + length ms"
proof (induction ms arbitrary: tweets prev w)
  case Nil
  then show ?case by simp
next
  case (Cons m rest)
  show ?case
  proof (cases "client_tweet P this m (tweetOptions prev) w")
    case (Pair resp w1)
    show ?thesis
    proof (cases resp)
      case (Inl e)
      with Cons.prems Pair show ?thesis by simp
    next
      case (Inr d)
      with Cons.prems Pair have
        "createThread_loop P this rest (tweets @ [d]) (Some (data_id d))
           (logger_info (ThreadTweetPosted m) w1) = (r, tweets', w')"
        by simp
      from Cons.IH [OF this] show ?thesis by simp
    qed
  qed
qed

lemma ready_bot_client:
  "client ready_bot = Some (TwitterApi (Some (ascii ''k'')) (Some (ascii ''s''))
              (Some (ascii ''t'')) (Some (ascii ''ts'')))"
  by (simp add: ready_bot_def)

text \<open>Every object the constructor returns has its client assigned.\<close>

lemma constructor_assigns_client:
  "constructor envFile process_env w = (Inr this, w') \<Longrightarrow> \<exists>c. client this = Some c"
  by (auto simp: constructor_def initializeClient_def split: prod.splits sum.splits)

section \<open>Threads\<close>

text \<open>
  C1. With a client assigned, \<open>createThread\<close> sends the messages in input order, one
  request per message, and every answer in the trace is the provider's own answer to that
  request in the state the earlier requests left (\<open>ss\<close>). Request 0 carries no parent
  reference; request \<open>i > 0\<close> carries the identifier of post \<open>i - 1\<close>, which is the post
  the provider created in answer to request \<open>i - 1\<close>. The identifier is sent whenever it
  is a non-empty string, as the provider's identifiers are; the empty string is falsy in
  the test of \<open>previousTweetId\<close> and gives a request without parent. At most one request,
  the last, is rejected; when none is, there is one post per message. The result is a
  returned list, never an exception.
\<close>

theorem createThread_chains_in_order:
  assumes "client this = Some c"
    and "createThread P this messages w = (res, w')"
  shows "\<exists>posts evs ss. res = Inr posts \<and> calls w' = calls w @ evs \<and>
           length ss = Suc (length evs) \<and> ss ! 0 = net w \<and> ss ! length evs = net w' \<and>
           length posts \<le> length evs \<and> length evs \<le> Suc (length posts) \<and>
           length evs \<le> length messages \<and>
           (length evs = length posts \<longrightarrow> length posts = length messages) \<and>
           (\<forall>i < length evs. \<exists>parent resp.
              evs ! i = TweetCall (messages ! i) parent resp \<and>
              v2_tweet P (messages ! i) parent (ss ! i) = (resp, ss ! Suc i) \<and>
              (if i < length posts then resp = Inr (posts ! i) else \<exists>e. resp = Inl e) \<and>
              parent = (if i = 0 then None
                        else if data_id (posts ! (i - 1)) = [] then None
                        else Some (data_id (posts ! (i - 1)))))"
proof -
  from createThread_trace [OF assms] obtain posts evs ss where
    t: "res = Inr posts" "calls w' = calls w @ evs"
       "length ss = Suc (length evs)" "ss ! 0 = net w" "ss ! length evs = net w'"
       "length posts \<le> length evs" "length evs \<le> Suc (length posts)"
       "length evs \<le> length messages"
       "length evs = length posts \<longrightarrow> length posts = length messages"
       "\<forall>i < length evs. \<exists>resp.
              evs ! i = TweetCall (messages ! i) (request_parent posts i) resp \<and>
              v2_tweet P (messages ! i) (request_parent posts i) (ss ! i) = (resp, ss ! Suc i) \<and>
              (if i < length posts then resp = Inr (posts ! i) else \<exists>e. resp = Inl e)"
    by blast
  have "\<exists>parent resp.
              evs ! i = TweetCall (messages ! i) parent resp \<and>
              v2_tweet P (messages ! i) parent (ss ! i) = (resp, ss ! Suc i) \<and>
              (if i < length posts then resp = Inr (posts ! i) else \<exists>e. resp = Inl e) \<and>
              parent = (if i = 0 then None
                        else if data_id (posts ! (i - 1)) = [] then None
                        else Some (data_id (posts ! (i - 1))))"
    if "i < length evs" for i
  proof -
    from t(10) that obtain resp where
      "evs ! i = TweetCall (messages ! i) (request_parent posts i) resp"
      "v2_tweet P (messages ! i) (request_parent posts i) (ss ! i) = (resp, ss ! Suc i)"
      "if i < length posts then resp = Inr (posts ! i) else \<exists>e. resp = Inl e"
      by blast
    moreover have "request_parent posts i =
        (if i = 0 then None
         else if data_id (posts ! (i - 1)) = [] then None
         else Some (data_id (posts ! (i - 1))))"
      by (simp add: request_parent_def)
    ultimately show ?thesis by blast
  qed
  with t(1-9) show ?thesis by blast
qed

theorem createThread_chains_in_order_witness:
  "createThread echo_provider ready_bot
     [JStr (ascii ''a''), JStr (ascii ''b''), JStr (ascii ''c'')] initial_world =
     (Inr [\<lparr>data_id = [0x31], data_text = ascii ''a''\<rparr>,
           \<lparr>data_id = [0x31, 0x31], data_text = ascii ''b''\<rparr>,
           \<lparr>data_id = [0x31, 0x31, 0x31], data_text = ascii ''c''\<rparr>],
      \<lparr>net = 3,
       calls = [TweetCall (JStr (ascii ''a'')) None
                  (Inr \<lparr>data_id = [0x31], data_text = ascii ''a''\<rparr>),
                TweetCall (JStr (ascii ''b'')) (Some [0x31])
                  (Inr \<lparr>data_id = [0x31, 0x31], data_text = ascii ''b''\<rparr>),
                TweetCall (JStr (ascii ''c'')) (Some [0x31, 0x31])
                  (Inr \<lparr>data_id = [0x31, 0x31, 0x31], data_text = ascii ''c''\<rparr>)],
       logged = [(Info, ThreadTweetPosted (JStr (ascii ''a''))),
                 (Info, ThreadTweetPosted (JStr (ascii ''b''))),
                 (Info, ThreadTweetPosted (JStr (ascii ''c'')))]\<rparr>)"
proof -
  let ?ms = "[JStr (ascii ''a''), JStr (ascii ''b''), JStr (ascii ''c'')]"
  obtain res w' where run: "createThread echo_provider ready_bot ?ms initial_world = (res, w')"
    by (cases "createThread echo_provider ready_bot ?ms initial_world") auto
  from createThread_chains_in_order [OF ready_bot_client run]
  obtain posts evs where "res = Inr posts" "calls w' = calls initial_world @ evs"
    by blast
  with run show ?thesis
    by (auto simp: createThread_def client_tweet_def echo_provider_def ready_bot_def
        initial_world_def logger_info_def tweetOptions_def)
qed

text \<open>
  C2. With a client assigned: when the provider accepts the first \<open>k\<close> requests of a
  thread, answering with \<open>posts\<close> and going through the states \<open>ss\<close>, and rejects request
  \<open>k\<close>, then \<open>createThread\<close> returns exactly those \<open>k\<close> posts, as a list and not as an
  exception. The trace is the \<open>k\<close> accepted requests, each with the parent reference of
  \<open>request_parent\<close>, followed by the rejected one and nothing else: no later message is
  submitted and nothing is deleted. The log has one line per post and the error line.
\<close>

theorem createThread_stops_at_failure:
  assumes "client this = Some c"
    and "k < length messages"
    and "length posts = k"
    and "length ss = Suc k"
    and "ss ! 0 = net w"
    and "\<forall>i<k. v2_tweet P (messages ! i) (request_parent posts i) (ss ! i) =
                  (Inr (posts ! i), ss ! Suc i)"
    and "v2_tweet P (messages ! k) (request_parent posts k) (ss ! k) = (Inl e, s')"
  shows "createThread P this messages w =
           (Inr posts,
            w\<lparr>net := s',
              calls := calls w @
                map (\<lambda>i. TweetCall (messages ! i) (request_parent posts i) (Inr (posts ! i)))
                  [0..<k] @
                [TweetCall (messages ! k) (request_parent posts k) (Inl e)],
              logged := logged w @
                map (\<lambda>i. (Info, ThreadTweetPosted (messages ! i))) [0..<k] @
                [(Err, ErrorCreatingThread e)]\<rparr>)"
proof -
  note loop = createThread_loop_rejected [where prev = None and tweets = "[]",
      folded request_parent_tweetOptions, OF assms]
  show ?thesis
    unfolding createThread_def loop by (simp add: logger_error_def)
qed

theorem createThread_stops_at_failure_witness:
  "createThread (rejecting_provider 1 (Some 403)) ready_bot
     [JStr (ascii ''a''), JStr (ascii ''b''), JStr (ascii ''c'')] initial_world =
     (Inr [\<lparr>data_id = [0x31], data_text = ascii ''a''\<rparr>],
      \<lparr>net = 2,
       calls = [TweetCall (JStr (ascii ''a'')) None
                  (Inr \<lparr>data_id = [0x31], data_text = ascii ''a''\<rparr>),
                TweetCall (JStr (ascii ''b'')) (Some [0x31])
                  (Inl (ApiError (Some 403) (ascii ''Rejected'')))],
       logged = [(Info, ThreadTweetPosted (JStr (ascii ''a''))),
                 (Err, ErrorCreatingThread (ApiError (Some 403) (ascii ''Rejected'')))]\<rparr>)"
proof -
  let ?ms = "[JStr (ascii ''a''), JStr (ascii ''b''), JStr (ascii ''c'')]"
  let ?P = "rejecting_provider 1 (Some 403)"
  let ?posts = "[\<lparr>data_id = [0x31], data_text = ascii ''a''\<rparr>]"
  let ?ss = "[0, 1 :: nat]"
  have h2: "1 < length ?ms" by simp
  have h3: "length ?posts = 1" by simp
  have h4: "length ?ss = Suc 1" by simp
  have h5: "?ss ! 0 = net initial_world" by (simp add: initial_world_def)
  have h6: "\<forall>i<1. v2_tweet ?P (?ms ! i) (request_parent ?posts i) (?ss ! i) =
                  (Inr (?posts ! i), ?ss ! Suc i)"
    by (simp add: rejecting_provider_def echo_provider_def request_parent_def)
  have h7: "v2_tweet ?P (?ms ! 1) (request_parent ?posts 1) (?ss ! 1) =
              (Inl (ApiError (Some 403) (ascii ''Rejected'')), 2)"
    by (simp add: rejecting_provider_def request_parent_def)
  from createThread_stops_at_failure [OF ready_bot_client h2 h3 h4 h5 h6 h7]
  show ?thesis by (simp add: initial_world_def request_parent_def)
qed

text \<open>
  C10. The list returned by \<open>createThread\<close> is never longer than its input, and on the
  empty input it is empty and the world (network trace, provider state, log) is unchanged.
\<close>

theorem createThread_length_bound:
  "(\<exists>posts w'. createThread P this messages w = (Inr posts, w') \<and>
                length posts \<le> length messages) \<and>
   createThread P this [] w = (Inr [], w)"
proof
  obtain r tweets w1 where loop: "createThread_loop P this messages [] None w = (r, tweets, w1)"
    by (cases "createThread_loop P this messages [] None w") auto
  from createThread_loop_length [OF loop] have "length tweets \<le> length messages" by simp
  with loop show "\<exists>posts w'. createThread P this messages w = (Inr posts, w') \<and>
                length posts \<le> length messages"
    by (cases r) (simp_all add: createThread_def)
next
  show "createThread P this [] w = (Inr [], w)" by (simp add: createThread_def)
qed

theorem createThread_length_bound_witness:
  "createThread echo_provider ready_bot [] initial_world = (Inr [], initial_world) \<and>
   (\<exists>posts w'. createThread echo_provider ready_bot [JStr (ascii ''a''), JStr (ascii ''b'')]
        initial_world = (Inr posts, w') \<and>
      length posts \<le> length [JStr (ascii ''a''), JStr (ascii ''b'')])"
  using createThread_length_bound [of echo_provider ready_bot "[JStr (ascii ''a''), JStr (ascii ''b'')]" initial_world]
  by simp

section \<open>Construction\<close>

text \<open>
  C3. With the five credentials present, the constructor returns the object with its
  client assigned, whatever the provider will answer to the identity check. When the
  provider rejects the check, the rejection is recorded and logged once \<open>me()\<close> settles,
  and the promise of \<open>_initializeClient\<close> is rejected; the constructor has returned by
  then and holds no reference to that promise.
\<close>

theorem constructor_ignores_rejected_identity_check:
  "constructor None full_env initial_world = (Inr ready_bot, initial_world) \<and>
   v2_me (rejecting_provider 0 (Some 401)) (net initial_world) =
     (Inl (ApiError (Some 401) (ascii ''Unauthorized'')), 0) \<and>
   initializeClient_settled (rejecting_provider 0 (Some 401)) initial_world =
     (Inl (ApiError (Some 401) (ascii ''Unauthorized'')),
      initial_world\<lparr>calls := [MeCall (Inl (ApiError (Some 401) (ascii ''Unauthorized'')))],
        logged := [(Err, FailedToInitializeClient (ApiError (Some 401) (ascii ''Unauthorized'')))]\<rparr>)"
  by (simp add: constructor_def loadCredentials_def initializeClient_def
      initializeClient_settled_def Let_def rejecting_provider_def full_env_def new_bot_def
      ready_bot_def initial_world_def logger_error_def ascii_def)

text \<open>
  C6. When any of the five credentials is missing or empty after \<open>dotenv.config\<close>, the
  constructor throws \<open>Missing required credentials in .env file\<close>, logs it, returns no
  object, and sends no request: \<open>_initializeClient\<close>, which builds the client, is not
  reached.
\<close>

theorem constructor_missing_credentials:
  assumes "env = dotenv_config envFile process_env"
    and "\<not> truthy (env ''TWITTER_API_KEY'') \<or> \<not> truthy (env ''TWITTER_API_SECRET'') \<or>
         \<not> truthy (env ''TWITTER_ACCESS_TOKEN'') \<or> \<not> truthy (env ''TWITTER_ACCESS_TOKEN_SECRET'') \<or>
         \<not> truthy (env ''TWITTER_BEARER_TOKEN'')"
  shows "constructor envFile process_env w =
           (Inl (Error (ascii ''Missing required credentials in .env file'')),
            w\<lparr>logged := logged w @
                 [(Err, FailedToLoadCredentials
                          (Error (ascii ''Missing required credentials in .env file'')))]\<rparr>)"
  using assms
  by (auto simp: constructor_def loadCredentials_def Let_def logger_error_def)

theorem constructor_missing_credentials_witness:
  "constructor None (full_env(''TWITTER_BEARER_TOKEN'' := None)) initial_world =
     (Inl (Error (ascii ''Missing required credentials in .env file'')),
      initial_world\<lparr>logged := logged initial_world @
         [(Err, FailedToLoadCredentials
                  (Error (ascii ''Missing required credentials in .env file'')))]\<rparr>) \<and>
   constructor (Some [''TWITTER_API_KEY'' \<mapsto> []]) full_env initial_world =
     (Inl (Error (ascii ''Missing required credentials in .env file'')),
      initial_world\<lparr>logged := logged initial_world @
         [(Err, FailedToLoadCredentials
                  (Error (ascii ''Missing required credentials in .env file'')))]\<rparr>)"
proof -
  let ?e1 = "dotenv_config None (full_env(''TWITTER_BEARER_TOKEN'' := None))"
  let ?e2 = "dotenv_config (Some [''TWITTER_API_KEY'' \<mapsto> []]) full_env"
  have h1: "\<not> truthy (?e1 ''TWITTER_API_KEY'') \<or> \<not> truthy (?e1 ''TWITTER_API_SECRET'') \<or>
         \<not> truthy (?e1 ''TWITTER_ACCESS_TOKEN'') \<or> \<not> truthy (?e1 ''TWITTER_ACCESS_TOKEN_SECRET'') \<or>
         \<not> truthy (?e1 ''TWITTER_BEARER_TOKEN'')"
    by simp
  have h2: "\<not> truthy (?e2 ''TWITTER_API_KEY'') \<or> \<not> truthy (?e2 ''TWITTER_API_SECRET'') \<or>
         \<not> truthy (?e2 ''TWITTER_ACCESS_TOKEN'') \<or> \<not> truthy (?e2 ''TWITTER_ACCESS_TOKEN_SECRET'') \<or>
         \<not> truthy (?e2 ''TWITTER_BEARER_TOKEN'')"
    by simp
  show ?thesis
    by (intro conjI constructor_missing_credentials [OF refl h1]
        constructor_missing_credentials [OF refl h2])
qed

section \<open>Single messages\<close>

text \<open>
  C4. For every text longer than 280 code units, \<open>sendTweet\<close> returns \<open>null\<close>, appends one
  error line to the log (\<open>Error posting tweet: Tweet exceeds 280 characters\<close>), and sends
  nothing: the network trace and the provider's state are as before.
\<close>

theorem sendTweet_oversized:
  assumes "length s > 280"
  shows "sendTweet P this (JStr s) w =
           (Inr None,
            w\<lparr>logged := logged w @
                 [(Err, ErrorPostingTweet (Error (ascii ''Tweet exceeds 280 characters'')))]\<rparr>)
         \<and> calls (snd (sendTweet P this (JStr s) w)) = calls w
         \<and> net (snd (sendTweet P this (JStr s) w)) = net w"
  using assms by (simp add: sendTweet_def sendTweet_try_def logger_error_def)

theorem sendTweet_oversized_witness:
  "length (replicate 281 (0x61 :: 16 word)) > 280 \<and>
   sendTweet echo_provider ready_bot (JStr (replicate 281 0x61)) initial_world =
     (Inr None,
      initial_world\<lparr>logged :=
         [(Err, ErrorPostingTweet (Error (ascii ''Tweet exceeds 280 characters'')))]\<rparr>)
   \<and> calls (snd (sendTweet echo_provider ready_bot (JStr (replicate 281 0x61)) initial_world)) = []"
proof -
  have h: "length (replicate 281 (0x61 :: 16 word)) > 280" by simp
  from h sendTweet_oversized [OF h, of echo_provider ready_bot initial_world]
  show ?thesis by (simp add: initial_world_def)
qed

text \<open>
  C7 as stated fails for a provider that does not repeat the submitted text in its
  response: the submission is accepted and the text of the post that \<open>sendTweet\<close> returns
  differs from the input text.
\<close>

theorem sendTweet_text_counterexample:
  "length (ascii ''a&b'') \<le> 280 \<and>
   v2_tweet escaping_provider (JStr (ascii ''a&b'')) None (net initial_world) =
     (Inr \<lparr>data_id = [0x31], data_text = ascii ''a&amp;b''\<rparr>, 1) \<and>
   fst (sendTweet escaping_provider ready_bot (JStr (ascii ''a&b'')) initial_world) =
     Inr (Some \<lparr>data_id = [0x31], data_text = ascii ''a&amp;b''\<rparr>) \<and>
   ascii ''a&amp;b'' \<noteq> ascii ''a&b''"
  by (simp add: sendTweet_def sendTweet_try_def client_tweet_def escaping_provider_def
      ready_bot_def initial_world_def logger_info_def ascii_def)

text \<open>
  C7 (amended). For every text of at most 280 code units, with a client assigned,
  \<open>sendTweet\<close> submits exactly that text with no options and, when the provider accepts,
  returns the \<open>data\<close> of the provider's response unchanged; the text of the returned post
  is the one the provider reports.
\<close>

theorem sendTweet_returns_provider_data:
  assumes "length s \<le> 280"
    and "client this = Some c"
    and "v2_tweet P (JStr s) None (net w) = (Inr d, n)"
  shows "sendTweet P this (JStr s) w =
           (Inr (Some d),
            w\<lparr>net := n, calls := calls w @ [TweetCall (JStr s) None (Inr d)],
              logged := logged w @ [(Info, TweetPostedSuccessfully (JStr s))]\<rparr>)"
  using assms
  by (simp add: sendTweet_def sendTweet_try_def client_tweet_def logger_info_def)

theorem sendTweet_returns_provider_data_witness:
  "sendTweet escaping_provider ready_bot (JStr (ascii ''a&b'')) initial_world =
     (Inr (Some \<lparr>data_id = [0x31], data_text = ascii ''a&amp;b''\<rparr>),
      initial_world\<lparr>net := 1,
        calls := calls initial_world @
          [TweetCall (JStr (ascii ''a&b'')) None
             (Inr \<lparr>data_id = [0x31], data_text = ascii ''a&amp;b''\<rparr>)],
        logged := logged initial_world @
          [(Info, TweetPostedSuccessfully (JStr (ascii ''a&b'')))]\<rparr>)"
proof -
  have h1: "length (ascii ''a&b'') \<le> 280" by (simp add: ascii_def)
  have h3: "v2_tweet escaping_provider (JStr (ascii ''a&b'')) None (net initial_world) =
     (Inr \<lparr>data_id = [0x31], data_text = ascii ''a&amp;b''\<rparr>, 1)"
    by (simp add: escaping_provider_def initial_world_def ascii_def)
  show ?thesis by (rule sendTweet_returns_provider_data [OF h1 ready_bot_client h3])
qed

text \<open>
  C8. When the provider rejects the submission of \<open>sendTweet\<close>, the result is \<open>null\<close>
  whatever the error; the code 403 changes the log line only
  (\<open>Access level error\<close> instead of \<open>Error posting tweet\<close>), and the error is not rethrown.
\<close>

theorem sendTweet_rejection_returns_null:
  assumes "client this = Some c"
    and "js_length message = Inr len"
    and "\<not> js_gt len 280"
    and "v2_tweet P message None (net w) = (Inl error, n)"
  shows "sendTweet P this message w =
           (Inr None,
            w\<lparr>net := n, calls := calls w @ [TweetCall message None (Inl error)],
              logged := logged w @
                [(Err, if code error = Some 403 then AccessLevelError error
                       else ErrorPostingTweet error)]\<rparr>)"
  using assms
  by (simp add: sendTweet_def sendTweet_try_def client_tweet_def logger_error_def)

theorem sendTweet_rejection_returns_null_witness:
  "sendTweet (rejecting_provider 0 (Some 403)) ready_bot (JStr (ascii ''a'')) initial_world =
     (Inr None,
      initial_world\<lparr>net := 1,
        calls := [TweetCall (JStr (ascii ''a'')) None (Inl (ApiError (Some 403) (ascii ''Rejected'')))],
        logged := [(Err, AccessLevelError (ApiError (Some 403) (ascii ''Rejected'')))]\<rparr>) \<and>
   sendTweet (rejecting_provider 0 (Some 500)) ready_bot (JStr (ascii ''a'')) initial_world =
     (Inr None,
      initial_world\<lparr>net := 1,
        calls := [TweetCall (JStr (ascii ''a'')) None (Inl (ApiError (Some 500) (ascii ''Rejected'')))],
        logged := [(Err, ErrorPostingTweet (ApiError (Some 500) (ascii ''Rejected'')))]\<rparr>)"
proof -
  have h2: "js_length (JStr (ascii ''a'')) = Inr (Some 1)" by (simp add: ascii_def)
  have h3: "\<not> js_gt (Some 1) 280" by simp
  have h4: "v2_tweet (rejecting_provider 0 c) (JStr (ascii ''a'')) None (net initial_world) =
              (Inl (ApiError c (ascii ''Rejected'')), 1)" for c
    by (simp add: rejecting_provider_def initial_world_def)
  from sendTweet_rejection_returns_null [OF ready_bot_client h2 h3 h4 [of "Some 403"]]
    sendTweet_rejection_returns_null [OF ready_bot_client h2 h3 h4 [of "Some 500"]]
  show ?thesis by (simp add: initial_world_def)
qed




section \<open>Deletion\<close>

text \<open>
  C5. \<open>deleteTweet\<close> returns \<open>true\<close> exactly when the delete request was sent and the
  provider resolved it, \<open>false\<close> otherwise; it never rejects. With a client assigned it
  sends exactly one delete request.
\<close>

theorem deleteTweet_result:
  "\<exists>w'. deleteTweet P this tweetId w =
          (Inr (client this \<noteq> None \<and> fst (v2_deleteTweet P tweetId (net w)) = Inr ()), w') \<and>
        calls w' = calls w @
          (case client this of None \<Rightarrow> []
           | Some c \<Rightarrow> [DeleteCall tweetId (fst (v2_deleteTweet P tweetId (net w)))])"
proof (cases "client this")
  case None
  then show ?thesis by (simp add: deleteTweet_def client_deleteTweet_def logger_error_def)
next
  case (Some c)
  obtain r n where call: "v2_deleteTweet P tweetId (net w) = (r, n)"
    by (cases "v2_deleteTweet P tweetId (net w)")
  show ?thesis
  proof (cases r)
    case (Inl e)
    with Some call show ?thesis
      by (simp add: deleteTweet_def client_deleteTweet_def logger_error_def)
  next
    case (Inr u)
    with Some call show ?thesis
      by (simp add: deleteTweet_def client_deleteTweet_def logger_info_def)
  qed
qed

theorem deleteTweet_result_witness:
  "fst (deleteTweet echo_provider ready_bot (JStr [0x31]) initial_world) = Inr True \<and>
   fst (deleteTweet (rejecting_provider 0 (Some 404)) ready_bot (JStr [0x31]) initial_world) = Inr False \<and>
   fst (deleteTweet echo_provider new_bot (JStr [0x31]) initial_world) = Inr False"
  using deleteTweet_result [of echo_provider ready_bot "JStr [0x31]" initial_world]
    deleteTweet_result [of "rejecting_provider 0 (Some 404)" ready_bot "JStr [0x31]" initial_world]
    deleteTweet_result [of echo_provider new_bot "JStr [0x31]" initial_world]
  by (auto simp: echo_provider_def rejecting_provider_def ready_bot_def new_bot_def initial_world_def)

end
